theory Spec2Isabelle
  imports Main "HOL-Library.Word"
begin

section \<open>JavaScript values\<close>

text \<open>
  A JavaScript string is a sequence of UTF-16 code units, and \<open>length\<close> and the
  regular-expression engine (without the \<open>u\<close> flag) count code units.
\<close>

type_synonym jsstring = "16 word list"

text \<open>
  String literals of the source are written as HOL strings; \<open>js\<close> turns the characters
  (code points below 256) into code units.
\<close>

definition js :: "string \<Rightarrow> jsstring" where
  "js s = map (\<lambda>c. of_nat (of_char c)) s"

text \<open>
  The values a field of a parsed JSON body can hold: an absent key reads as
  \<open>undefined\<close>. Numbers are the integer-valued ones, and nested objects and arrays are
  not part of the model.
\<close>

datatype jsvalue =
    JUndefined
  | JNull
  | JBool bool
  | JNum int
  | JStr jsstring

text \<open>An object is a finite map from keys to values; reading a missing key gives \<open>undefined\<close>.\<close>

type_synonym jsobject = "string \<rightharpoonup> jsvalue"

definition get :: "jsobject \<Rightarrow> string \<Rightarrow> jsvalue" where
  "get obj k = (case obj k of None \<Rightarrow> JUndefined | Some v \<Rightarrow> v)"

text \<open>\<open>ToBoolean\<close>: what \<open>!x\<close> and \<open>if (x)\<close> test.\<close>

fun truthy :: "jsvalue \<Rightarrow> bool" where
  "truthy JUndefined = False"
| "truthy JNull = False"
| "truthy (JBool b) = b"
| "truthy (JNum n) = (n \<noteq> 0)"
| "truthy (JStr s) = (s \<noteq> [])"

text \<open>Decimal digits of a natural number, most significant first.\<close>

fun digits :: "nat \<Rightarrow> jsstring" where
  "digits n = (if n < 10 then [of_nat (48 + n)] else digits (n div 10) @ [of_nat (48 + n mod 10)])"

declare digits.simps [simp del]

text \<open>
  \<open>ToString\<close>, which \<open>RegExp.prototype.test\<close> applies to its argument. For an integer
  below \<open>10^21\<close> in magnitude the result is its decimal numeral.
\<close>

fun ToString :: "jsvalue \<Rightarrow> jsstring" where
  "ToString JUndefined = js ''undefined''"
| "ToString JNull = js ''null''"
| "ToString (JBool b) = (if b then js ''true'' else js ''false'')"
| "ToString (JNum n) = (if n < 0 then js ''-'' @ digits (nat (- n)) else digits (nat n))"
| "ToString (JStr s) = s"

section \<open>Regular expressions\<close>

text \<open>
  The fragment of the JavaScript pattern language that the source uses: the assertions
  \<open>^\<close> and \<open>$\<close> (no \<open>m\<close> flag: start and end of the input), positive lookahead
  \<open>(?=...)\<close>, a single character matcher, and a matcher repeated at least \<open>n\<close> times
  (\<open>x*\<close> is \<open>x{0,}\<close>). A character matcher is the dot or a bracket class made of ranges,
  single characters and the escape \<open>\W\<close>.
\<close>

datatype classatom =
    Range "16 word" "16 word"
  | Single "16 word"
  | NonWord

datatype matcher =
    Dot
  | Bracket "classatom list"

datatype node =
    AssertStart
  | AssertEnd
  | Lookahead "node list"
  | One matcher
  | Repeat nat matcher

type_synonym regex = "node list"

text \<open>The line terminators, which the dot does not match: LF, CR, U+2028, U+2029.\<close>

definition isLineTerminator :: "16 word \<Rightarrow> bool" where
  "isLineTerminator c = (c = 0x0A \<or> c = 0x0D \<or> c = 0x2028 \<or> c = 0x2029)"

text \<open>The word characters of \<open>\w\<close> (no \<open>i\<close> or \<open>u\<close> flag): \<open>[A-Za-z0-9_]\<close>.\<close>

definition isWordChar :: "16 word \<Rightarrow> bool" where
  "isWordChar c = ((0x61 \<le> c \<and> c \<le> 0x7A) \<or> (0x41 \<le> c \<and> c \<le> 0x5A)
     \<or> (0x30 \<le> c \<and> c \<le> 0x39) \<or> c = 0x5F)"

fun atomMatches :: "classatom \<Rightarrow> 16 word \<Rightarrow> bool" where
  "atomMatches (Range lo hi) c = (lo \<le> c \<and> c \<le> hi)"
| "atomMatches (Single d) c = (c = d)"
| "atomMatches NonWord c = (\<not> isWordChar c)"

fun matcherMatches :: "matcher \<Rightarrow> 16 word \<Rightarrow> bool" where
  "matcherMatches Dot c = (\<not> isLineTerminator c)"
| "matcherMatches (Bracket as) c = list_ex (\<lambda>a. atomMatches a c) as"

text \<open>
  \<open>run ns s i\<close>: the sequence \<open>ns\<close> matches in \<open>s\<close> starting at index \<open>i\<close>. The pattern has
  no capture groups and no back references, so whether the backtracking matcher finds a
  match does not depend on the order in which it tries the repetition counts; \<open>Repeat\<close>
  tries every count from the minimum up to the rest of the input.
\<close>

fun run :: "node list \<Rightarrow> jsstring \<Rightarrow> nat \<Rightarrow> bool" where
  "run [] s i = True"
| "run (AssertStart # ns) s i = (i = 0 \<and> run ns s i)"
| "run (AssertEnd # ns) s i = (i = length s \<and> run ns s i)"
| "run (Lookahead ms # ns) s i = (run ms s i \<and> run ns s i)"
| "run (One m # ns) s i = (i < length s \<and> matcherMatches m (s ! i) \<and> run ns s (Suc i))"
| "run (Repeat n m # ns) s i =
     list_ex (\<lambda>k. list_all (matcherMatches m) (take k (drop i s)) \<and> run ns s (i + k))
       [n ..< Suc (length s - i)]"

text \<open>
  \<open>RegExp.prototype.test\<close> for a pattern without the \<open>g\<close> and \<open>y\<close> flags: a match may
  start at any index of the input.
\<close>

definition test :: "regex \<Rightarrow> jsstring \<Rightarrow> bool" where
  "test r s = list_ex (\<lambda>i. run r s i) [0 ..< Suc (length s)]"

section \<open>utils/validators.ts\<close>

text \<open>\<^verbatim>\<open>/^(?=.*[a-z])(?=.*[A-Z])(?=.*[\W_]).{8,}$/\<close>\<close>

definition passwordRegex :: regex where
  "passwordRegex =
     [AssertStart,
      Lookahead [Repeat 0 Dot, One (Bracket [Range 0x61 0x7A])],
      Lookahead [Repeat 0 Dot, One (Bracket [Range 0x41 0x5A])],
      Lookahead [Repeat 0 Dot, One (Bracket [NonWord, Single 0x5F])],
      Repeat 8 Dot,
      AssertEnd]"

definition isValidPassword :: "jsstring \<Rightarrow> bool" where
  "isValidPassword password = test passwordRegex password"

section \<open>The request, the response and the collaborators of the controller\<close>

text \<open>
  The body of a response, one constructor for each shape the controller sends:
  \<open>{message}\<close>, \<open>{id, message}\<close>, \<open>{error}\<close>, \<open>{token}\<close> and the list of users.
  Message texts are HOL strings; a character beyond ASCII is written by its code point.
\<close>

datatype jsonBody =
    Message string
  | Created jsvalue string
  | Failure string
  | Token jsstring
  | Users "jsobject list"

record response =
  status :: nat
  json :: jsonBody

definition respond :: "nat \<Rightarrow> jsonBody \<Rightarrow> response" where
  "respond code b = \<lparr>status = code, json = b\<rparr>"

text \<open>
  The request as the handlers read it: \<open>req.body\<close> (the parsed JSON object),
  \<open>req.params\<close> (identifiers taken from the URL) and \<open>req.user\<close>, which
  \<open>types/express/index.d.ts\<close> declares optional and which the middleware
  \<open>verifyToken\<close> attaches.
\<close>

record request =
  body :: jsobject
  params :: "string \<rightharpoonup> jsstring"
  user :: "jsobject option"

text \<open>
  The functions of \<open>services/user.service\<close>, which the controller imports and calls,
  are parameters of the handlers. A service that throws returns \<open>Inl\<close> of the error's
  message. \<open>'st\<close> is the state of the data store; looking a user up reads it, the other
  calls return the state they leave behind.
\<close>

record 'st services =
  findUserByEmailService :: "'st \<Rightarrow> jsvalue \<Rightarrow> string + jsobject option"
  createUserService :: "'st \<Rightarrow> jsobject \<Rightarrow> (string + jsvalue) \<times> 'st"
  updateUserService :: "'st \<Rightarrow> jsvalue \<Rightarrow> jsobject \<Rightarrow> (string + unit) \<times> 'st"
  deleteUserService :: "'st \<Rightarrow> jsvalue \<Rightarrow> (string + unit) \<times> 'st"
  getUsersService :: "'st \<Rightarrow> string + jsobject list"

text \<open>
  What the controller takes from the process and from its libraries: \<open>bcrypt.hash\<close>
  and \<open>bcrypt.compare\<close> (each may reject, and the hash is salted, so the field stands
  for the outcome of the one call a handler makes), \<open>sign\<close> of \<open>jsonwebtoken\<close> with
  the payload, the secret and the \<open>expiresIn\<close> option, the two environment variables
  (\<open>None\<close> when unset), and the clock read by \<open>new Date()\<close>.
\<close>

record env =
  bcrypt_hash :: "jsvalue \<Rightarrow> nat \<Rightarrow> string + jsstring"
  bcrypt_compare :: "jsvalue \<Rightarrow> jsvalue \<Rightarrow> string + bool"
  sign :: "jsobject \<Rightarrow> jsstring \<Rightarrow> jsstring \<Rightarrow> string + jsstring"
  JWT_SECRET :: "jsstring option"
  JWT_EXPIRES_IN :: "jsstring option"
  now :: nat

section \<open>controllers/user.controller.ts\<close>

definition msgRequired :: string where
  "msgRequired = ''Todos los campos son obligatorios''"

definition msgWeakPassword :: string where
  "msgWeakPassword = ''La contrase'' @ [CHR 0xF1] @ ''a debe tener al menos 8 caracteres, incluir letra may''
     @ [CHR 0xFA] @ ''scula, min'' @ [CHR 0xFA] @ ''scula y un caracter especial''"

definition msgEmailTaken :: string where
  "msgEmailTaken = ''El correo ya est'' @ [CHR 0xE1] @ '' registrado''"

definition msgCreated :: string where
  "msgCreated = ''Usuario creado correctamente''"

definition msgUpdated :: string where
  "msgUpdated = ''Usuario actualizado''"

definition msgInvalidToken :: string where
  "msgInvalidToken = ''Token inv'' @ [CHR 0xE1] @ ''lido''"

definition msgDeleted :: string where
  "msgDeleted = ''Usuario eliminado correctamente''"

definition msgLoginRequired :: string where
  "msgLoginRequired = ''Email y contrase'' @ [CHR 0xF1] @ ''a requeridos''"

definition msgUserNotFound :: string where
  "msgUserNotFound = ''Usuario no encontrado''"

definition msgWrongPassword :: string where
  "msgWrongPassword = ''Contrase'' @ [CHR 0xF1] @ ''a incorrecta''"

definition msgNoSecret :: string where
  "msgNoSecret = ''JWT_SECRET no definido''"

text \<open>
  The object literal \<open>userData\<close> of \<open>createUser\<close>. The \<open>Date\<close> of \<open>createdAt\<close> is
  kept as its time value, the milliseconds the clock shows.
\<close>

definition userData :: "jsvalue \<Rightarrow> jsvalue \<Rightarrow> jsvalue \<Rightarrow> jsvalue \<Rightarrow> jsvalue \<Rightarrow> nat \<Rightarrow> jsobject" where
  "userData firstName lastName age email password t =
     [''firstName'' \<mapsto> firstName, ''lastName'' \<mapsto> lastName, ''age'' \<mapsto> age,
      ''email'' \<mapsto> email, ''password'' \<mapsto> password, ''createdAt'' \<mapsto> JNum (int t)]"

text \<open>
  Each handler returns the response it sends and the state of the store it leaves. An
  error thrown inside the \<open>try\<close> block is answered by the \<open>catch\<close> block with status
  500 and the error's message.
\<close>

definition createUser :: "'st services \<Rightarrow> env \<Rightarrow> 'st \<Rightarrow> request \<Rightarrow> response \<times> 'st" where
  "createUser svc e st req =
     (let firstName = get (body req) ''firstName'';
          lastName = get (body req) ''lastName'';
          age = get (body req) ''age'';
          email = get (body req) ''email'';
          password = get (body req) ''password''
      in
        if \<not> truthy email \<or> \<not> truthy password \<or> \<not> truthy firstName \<or> \<not> truthy lastName
           \<or> \<not> truthy age
        then (respond 400 (Message msgRequired), st)
        else if \<not> test passwordRegex (ToString password)
        then (respond 400 (Message msgWeakPassword), st)
        else
          (case findUserByEmailService svc st email of
             Inl err \<Rightarrow> (respond 500 (Failure err), st)
           | Inr (Some existingUser) \<Rightarrow> (respond 400 (Message msgEmailTaken), st)
           | Inr None \<Rightarrow>
               (case createUserService svc st
                       (userData firstName lastName age email password (now e)) of
                  (Inl err, st') \<Rightarrow> (respond 500 (Failure err), st')
                | (Inr newId, st') \<Rightarrow> (respond 201 (Created newId msgCreated), st'))))"

definition getUsers :: "'st services \<Rightarrow> 'st \<Rightarrow> request \<Rightarrow> response" where
  "getUsers svc st req =
     (case getUsersService svc st of
        Inl err \<Rightarrow> respond 500 (Failure err)
      | Inr users \<Rightarrow> respond 200 (Users users))"

text \<open>The call of \<open>updateUserService\<close> and the answer that follows it.\<close>

definition sendUpdate :: "'st services \<Rightarrow> 'st \<Rightarrow> jsvalue \<Rightarrow> jsobject \<Rightarrow> response \<times> 'st" where
  "sendUpdate svc st userId data =
     (case updateUserService svc st userId data of
        (Inl err, st') \<Rightarrow> (respond 500 (Failure err), st')
      | (Inr _, st') \<Rightarrow> (respond 200 (Message msgUpdated), st'))"

definition updateUser :: "'st services \<Rightarrow> env \<Rightarrow> 'st \<Rightarrow> request \<Rightarrow> response \<times> 'st" where
  "updateUser svc e st req =
     (case user req of
        None \<Rightarrow> (respond 401 (Message msgInvalidToken), st)
      | Some u \<Rightarrow>
          (let userId = get u ''uid''; data = body req in
             if truthy (get data ''password'')
             then
               (case bcrypt_hash e (get data ''password'') 10 of
                  Inl err \<Rightarrow> (respond 500 (Failure err), st)
                | Inr hashed \<Rightarrow> sendUpdate svc st userId (data(''password'' \<mapsto> JStr hashed)))
             else sendUpdate svc st userId data))"

definition deleteUser :: "'st services \<Rightarrow> 'st \<Rightarrow> request \<Rightarrow> response \<times> 'st" where
  "deleteUser svc st req =
     (case user req of
        None \<Rightarrow> (respond 401 (Message msgInvalidToken), st)
      | Some u \<Rightarrow>
          (let userId = get u ''uid'' in
             case deleteUserService svc st userId of
               (Inl err, st') \<Rightarrow> (respond 500 (Failure err), st')
             | (Inr _, st') \<Rightarrow> (respond 200 (Message msgDeleted), st')))"

text \<open>\<open>process.env.JWT_EXPIRES_IN || "1h"\<close>: unset and empty both give the default.\<close>

definition expiresIn :: "env \<Rightarrow> jsstring" where
  "expiresIn e =
     (case JWT_EXPIRES_IN e of
        None \<Rightarrow> js ''1h''
      | Some v \<Rightarrow> if v = [] then js ''1h'' else v)"

text \<open>Lines 181 to 194: the secret is read and tested, then the token is signed and sent.\<close>

definition issueToken :: "env \<Rightarrow> jsobject \<Rightarrow> response" where
  "issueToken e u =
     (case JWT_SECRET e of
        None \<Rightarrow> respond 500 (Failure msgNoSecret)
      | Some secret \<Rightarrow>
          if secret = [] then respond 500 (Failure msgNoSecret)
          else
            (case sign e [''uid'' \<mapsto> get u ''id'', ''email'' \<mapsto> get u ''email''] secret
                    (expiresIn e) of
               Inl err \<Rightarrow> respond 500 (Failure err)
             | Inr token \<Rightarrow> respond 200 (Token token)))"

definition loginUser :: "'st services \<Rightarrow> env \<Rightarrow> 'st \<Rightarrow> request \<Rightarrow> response" where
  "loginUser svc e st req =
     (let email = get (body req) ''email''; password = get (body req) ''password'' in
        if \<not> truthy email \<or> \<not> truthy password
        then respond 400 (Message msgLoginRequired)
        else
          (case findUserByEmailService svc st email of
             Inl err \<Rightarrow> respond 500 (Failure err)
           | Inr None \<Rightarrow> respond 401 (Message msgUserNotFound)
           | Inr (Some u) \<Rightarrow>
               (case bcrypt_compare e password (get u ''password'') of
                  Inl err \<Rightarrow> respond 500 (Failure err)
                | Inr match \<Rightarrow>
                    if \<not> match then respond 401 (Message msgWrongPassword)
                    else issueToken e u)))"

section \<open>Vocabulary for the statements about the controller\<close>

definition field :: "request \<Rightarrow> string \<Rightarrow> jsvalue" where
  "field req k = get (body req) k"

text \<open>The condition under which line 38 of the controller lets a registration pass.\<close>

definition allFieldsTruthy :: "request \<Rightarrow> bool" where
  "allFieldsTruthy req =
     (truthy (field req ''email'') \<and> truthy (field req ''password'') \<and> truthy (field req ''firstName'')
      \<and> truthy (field req ''lastName'') \<and> truthy (field req ''age''))"

text \<open>The record that \<open>createUser\<close> hands to \<open>createUserService\<close>.\<close>

definition newUser :: "env \<Rightarrow> request \<Rightarrow> jsobject" where
  "newUser e req =
     userData (field req ''firstName'') (field req ''lastName'') (field req ''age'')
       (field req ''email'') (field req ''password'') (now e)"

text \<open>The condition under which line 173 of the controller lets a login pass.\<close>

definition credentialsTruthy :: "request \<Rightarrow> bool" where
  "credentialsTruthy req = (truthy (field req ''email'') \<and> truthy (field req ''password''))"

text \<open>The payload of the token: \<open>{ uid: user.id, email: user.email }\<close>.\<close>

definition tokenPayload :: "jsobject \<Rightarrow> jsobject" where
  "tokenPayload u = [''uid'' \<mapsto> get u ''id'', ''email'' \<mapsto> get u ''email'']"

section \<open>routes/user.routes.ts and the second router\<close>

datatype httpVerb = GET | POST | PUT | DELETE

datatype middleware = VerifyToken

datatype handlerName = CreateUser | LoginUser | GetUsers | UpdateUser | DeleteUser

record route =
  verb :: httpVerb
  url :: string
  middlewares :: "middleware list"
  handler :: handlerName

text \<open>The router of \<open>routes/user.routes.ts\<close>, mounted at \<open>/api/users\<close>.\<close>

definition userRoutes :: "route list" where
  "userRoutes =
     [\<lparr>verb = POST, url = ''/'', middlewares = [], handler = CreateUser\<rparr>,
      \<lparr>verb = POST, url = ''/login'', middlewares = [], handler = LoginUser\<rparr>,
      \<lparr>verb = GET, url = ''/'', middlewares = [VerifyToken], handler = GetUsers\<rparr>,
      \<lparr>verb = PUT, url = ''/profile'', middlewares = [VerifyToken], handler = UpdateUser\<rparr>,
      \<lparr>verb = DELETE, url = ''/'', middlewares = [VerifyToken], handler = DeleteUser\<rparr>]"

text \<open>The router of the source file whose name is not known (its routes end in \<open>/profile\<close>).\<close>

definition profileRoutes :: "route list" where
  "profileRoutes =
     [\<lparr>verb = GET, url = ''/profile'', middlewares = [VerifyToken], handler = GetUsers\<rparr>,
      \<lparr>verb = PUT, url = ''/profile'', middlewares = [VerifyToken], handler = UpdateUser\<rparr>,
      \<lparr>verb = DELETE, url = ''/profile'', middlewares = [VerifyToken], handler = DeleteUser\<rparr>,
      \<lparr>verb = POST, url = ''/'', middlewares = [], handler = CreateUser\<rparr>]"

definition protected :: "handlerName \<Rightarrow> bool" where
  "protected h = (h = GetUsers \<or> h = UpdateUser \<or> h = DeleteUser)"

definition guarded :: "route \<Rightarrow> bool" where
  "guarded r = (VerifyToken \<in> set (middlewares r))"

section \<open>The data store\<close>

text \<open>
  Modelled from the spec: the file \<open>services/user.service\<close> is not among the sources.
  The spec describes the store as an external collaborator that persists user records
  keyed by email and identifier, with an identifier assigned by the store on creation.
  The state is the list of records with their identifiers and a counter for the next
  identifier.
\<close>

record store =
  docs :: "(jsvalue \<times> jsobject) list"
  nextId :: nat

text \<open>
  Modelled from the spec: lookup by email, the one read the core requires of the store.
  The record comes back with its identifier in the field \<open>id\<close>, as \<open>UserWithId\<close>
  declares; no record gives \<open>null\<close>.
\<close>

definition storeFindUserByEmail :: "store \<Rightarrow> jsvalue \<Rightarrow> string + jsobject option" where
  "storeFindUserByEmail st em =
     Inr (case find (\<lambda>(i, d). get d ''email'' = em) (docs st) of
            None \<Rightarrow> None
          | Some (i, d) \<Rightarrow> Some (d(''id'' \<mapsto> i)))"

text \<open>
  Modelled from the spec: "persist record via store; return the new identifier". The
  store keeps the record as it receives it.
\<close>

definition storeCreateUser :: "store \<Rightarrow> jsobject \<Rightarrow> (string + jsvalue) \<times> store" where
  "storeCreateUser st d =
     (let newId = JStr (js ''user'' @ digits (nextId st))
      in (Inr newId, st\<lparr>docs := docs st @ [(newId, d)], nextId := Suc (nextId st)\<rparr>))"

text \<open>
  Modelled from the spec: the update takes "partial fields incl. optional password"; the
  fields supplied overwrite those of the record with the given identifier, the others
  stay. The spec does not say what happens when no record has the identifier; here
  nothing is written.
\<close>

definition storeUpdateUser :: "store \<Rightarrow> jsvalue \<Rightarrow> jsobject \<Rightarrow> (string + unit) \<times> store" where
  "storeUpdateUser st i d =
     (Inr (), st\<lparr>docs := map (\<lambda>(j, old). if j = i then (j, old ++ d) else (j, old)) (docs st)\<rparr>)"

text \<open>Modelled from the spec: the record with the given identifier is deleted.\<close>

definition storeDeleteUser :: "store \<Rightarrow> jsvalue \<Rightarrow> (string + unit) \<times> store" where
  "storeDeleteUser st i = (Inr (), st\<lparr>docs := filter (\<lambda>(j, old). j \<noteq> i) (docs st)\<rparr>)"

text \<open>Modelled from the spec: the list operation returns every record.\<close>

definition storeGetUsers :: "store \<Rightarrow> string + jsobject list" where
  "storeGetUsers st = Inr (map (\<lambda>(i, d). d(''id'' \<mapsto> i)) (docs st))"

definition storeServices :: "store services" where
  "storeServices =
     \<lparr>findUserByEmailService = storeFindUserByEmail,
      createUserService = storeCreateUser,
      updateUserService = storeUpdateUser,
      deleteUserService = storeDeleteUser,
      getUsersService = storeGetUsers\<rparr>"

definition emptyStore :: store where
  "emptyStore = \<lparr>docs = [], nextId = 0\<rparr>"

section \<open>Observing the calls a handler makes\<close>

text \<open>
  A second instance of the services writes down every call that changes the store, with
  its arguments, and does nothing else: its state is the log of the calls.
\<close>

datatype call =
    CreateCall jsobject
  | UpdateCall jsvalue jsobject
  | DeleteCall jsvalue

definition recorder :: "call list services" where
  "recorder =
     \<lparr>findUserByEmailService = (\<lambda>log em. Inr None),
      createUserService = (\<lambda>log d. (Inr JNull, log @ [CreateCall d])),
      updateUserService = (\<lambda>log i d. (Inr (), log @ [UpdateCall i d])),
      deleteUserService = (\<lambda>log i. (Inr (), log @ [DeleteCall i])),
      getUsersService = (\<lambda>log. Inr [])\<rparr>"

text \<open>The identifier of the record a recorded call acts on; a creation has none yet.\<close>

fun target :: "call \<Rightarrow> jsvalue option" where
  "target (CreateCall d) = None"
| "target (UpdateCall i d) = Some i"
| "target (DeleteCall i) = Some i"



section \<open>The password rule in the words of the specification\<close>

definition isLowercaseLetter :: "16 word \<Rightarrow> bool" where
  "isLowercaseLetter c = (0x61 \<le> c \<and> c \<le> 0x7A)"

definition isUppercaseLetter :: "16 word \<Rightarrow> bool" where
  "isUppercaseLetter c = (0x41 \<le> c \<and> c \<le> 0x5A)"

definition isLetter :: "16 word \<Rightarrow> bool" where
  "isLetter c = (isLowercaseLetter c \<or> isUppercaseLetter c)"

definition isDigit :: "16 word \<Rightarrow> bool" where
  "isDigit c = (0x30 \<le> c \<and> c \<le> 0x39)"

text \<open>
  "Accepted iff the password has length at least 8 and contains at least one lowercase
  letter, one uppercase letter, and one character that is neither a letter nor a digit",
  with the letters \<open>a\<close> to \<open>z\<close> and \<open>A\<close> to \<open>Z\<close> and the digits \<open>0\<close> to \<open>9\<close>.
\<close>

definition specPasswordRule :: "jsstring \<Rightarrow> bool" where
  "specPasswordRule p =
     (8 \<le> length p \<and> list_ex isLowercaseLetter p \<and> list_ex isUppercaseLetter p
      \<and> list_ex (\<lambda>c. \<not> isLetter c \<and> \<not> isDigit c) p)"

text \<open>A field is missing, in the words of the specification, when the body has no such key.\<close>

definition specMissing :: "jsobject \<Rightarrow> string \<Rightarrow> bool" where
  "specMissing obj k = (obj k = None)"

section \<open>Sample data\<close>

text \<open>
  Stand-ins for the two libraries, to run the handlers on concrete requests: the hash of a
  string is the string behind a fixed prefix, anything but a string is rejected, and the
  token spells out the payload.
\<close>

definition demoHash :: "jsvalue \<Rightarrow> nat \<Rightarrow> string + jsstring" where
  "demoHash v rounds = (case v of JStr s \<Rightarrow> Inr (js ''$2b$'' @ s) | _ \<Rightarrow> Inl ''data must be a string'')"

definition demoCompare :: "jsvalue \<Rightarrow> jsvalue \<Rightarrow> string + bool" where
  "demoCompare v h =
     (case v of
        JStr s \<Rightarrow> (case h of JStr t \<Rightarrow> Inr (t = js ''$2b$'' @ s) | _ \<Rightarrow> Inl ''data and hash must be strings'')
      | _ \<Rightarrow> Inl ''data and hash must be strings'')"

definition demoSign :: "jsobject \<Rightarrow> jsstring \<Rightarrow> jsstring \<Rightarrow> string + jsstring" where
  "demoSign payload secret ttl =
     Inr (ToString (get payload ''uid'') @ js ''.'' @ ToString (get payload ''email'') @ js ''.'' @ ttl)"

definition demoEnv :: "jsstring option \<Rightarrow> env" where
  "demoEnv secret =
     \<lparr>bcrypt_hash = demoHash, bcrypt_compare = demoCompare, sign = demoSign,
      JWT_SECRET = secret, JWT_EXPIRES_IN = None, now = 0\<rparr>"

definition mkRequest :: "jsobject \<Rightarrow> jsobject option \<Rightarrow> request" where
  "mkRequest b u = \<lparr>body = b, params = Map.empty, user = u\<rparr>"

text \<open>The registration of the first end-to-end scenario of the specification.\<close>

definition registerBody :: "jsvalue \<Rightarrow> jsvalue \<Rightarrow> jsobject" where
  "registerBody a pw =
     [''firstName'' \<mapsto> JStr (js ''A''), ''lastName'' \<mapsto> JStr (js ''B''), ''age'' \<mapsto> a,
      ''email'' \<mapsto> JStr (js ''a@b.com''), ''password'' \<mapsto> pw]"

definition registerAlice :: request where
  "registerAlice = mkRequest (registerBody (JNum 30) (JStr (js ''Abcdefg!''))) None"

text \<open>A store that holds her record, with the hash of her password in the password field.\<close>

definition aliceStore :: store where
  "aliceStore =
     \<lparr>docs = [(JStr (js ''user0''),
               userData (JStr (js ''A'')) (JStr (js ''B'')) (JNum 30) (JStr (js ''a@b.com''))
                 (JStr (js ''$2b$Abcdefg!'')) 0)],
      nextId = 1\<rparr>"

text \<open>Her record as the lookup by email returns it.\<close>

definition aliceRecord :: jsobject where
  "aliceRecord = (snd (hd (docs aliceStore)))(''id'' \<mapsto> JStr (js ''user0''))"

definition loginBody :: "jsstring \<Rightarrow> jsstring \<Rightarrow> jsobject" where
  "loginBody em pw = [''email'' \<mapsto> JStr em, ''password'' \<mapsto> JStr pw]"

text \<open>
  Two updates sent with her token: one changes the first name and names another record
  in the body and in the URL, the other asks for a new email and a new password.
\<close>

definition renameRequest :: "jsobject \<Rightarrow> request" where
  "renameRequest u =
     \<lparr>body = [''firstName'' \<mapsto> JStr (js ''Z''), ''id'' \<mapsto> JStr (js ''user9''), ''uid'' \<mapsto> JStr (js ''user9'')],
      params = [''id'' \<mapsto> js ''user9''],
      user = Some u\<rparr>"


definition aliceIdentity :: jsobject where
  "aliceIdentity = [''uid'' \<mapsto> JStr (js ''user0''), ''email'' \<mapsto> JStr (js ''a@b.com'')]"

section \<open>The password pattern\<close>

text \<open>
  The pattern is anchored, so a match starts at index 0. Each lookahead runs over
  characters the dot matches up to a character of its class; the tail needs at least
  eight characters the dot matches, up to the end of the input.
\<close>

lemma dot_all: "list_all (matcherMatches Dot) xs = list_all (\<lambda>c. \<not> isLineTerminator c) xs"
  by (simp add: list_all_iff)

lemma run_lookahead_body:
  "run [Repeat 0 Dot, One m] s 0 \<longleftrightarrow>
     (\<exists>j<length s. matcherMatches m (s ! j) \<and> list_all (\<lambda>c. \<not> isLineTerminator c) (take j s))"
  by (auto simp: dot_all list_ex_iff less_Suc_eq_le)

lemma lookahead_no_terminator:
  assumes "list_all (\<lambda>c. \<not> isLineTerminator c) s"
  shows "run [Repeat 0 Dot, One m] s 0 \<longleftrightarrow> list_ex (matcherMatches m) s"
proof -
  have "list_all (\<lambda>c. \<not> isLineTerminator c) (take j s)" for j
    using assms by (auto simp: list_all_iff dest: in_set_takeD)
  then have "run [Repeat 0 Dot, One m] s 0 \<longleftrightarrow> (\<exists>j<length s. matcherMatches m (s ! j))"
    unfolding run_lookahead_body by simp
  also have "\<dots> \<longleftrightarrow> (\<exists>c\<in>set s. matcherMatches m c)"
    by (metis in_set_conv_nth)
  finally show ?thesis
    by (simp add: list_ex_iff)
qed

lemma run_tail:
  "run [Repeat 8 Dot, AssertEnd] s 0 \<longleftrightarrow> 8 \<le> length s \<and> list_all (\<lambda>c. \<not> isLineTerminator c) s"
  by (auto simp: dot_all list_ex_iff less_Suc_eq_le)

lemma test_anchored: "test (AssertStart # ns) s = run ns s 0"
  by (auto simp: test_def list_ex_iff)

lemma run_lookahead: "run (Lookahead ms # ns) s 0 = (run ms s 0 \<and> run ns s 0)"
  by simp

lemma bracket_lower: "matcherMatches (Bracket [Range 0x61 0x7A]) = isLowercaseLetter"
  by (rule ext) (simp add: isLowercaseLetter_def)

lemma bracket_upper: "matcherMatches (Bracket [Range 0x41 0x5A]) = isUppercaseLetter"
  by (rule ext) (simp add: isUppercaseLetter_def)

lemma bracket_special:
  "matcherMatches (Bracket [NonWord, Single 0x5F]) = (\<lambda>c. \<not> isLetter c \<and> \<not> isDigit c)"
  by (rule ext)
    (auto simp: isWordChar_def isLetter_def isLowercaseLetter_def isUppercaseLetter_def isDigit_def)

lemma passwordRegex_accepts:
  "test passwordRegex p \<longleftrightarrow> specPasswordRule p \<and> list_all (\<lambda>c. \<not> isLineTerminator c) p"
proof (cases "list_all (\<lambda>c. \<not> isLineTerminator c) p")
  case True
  show ?thesis
    unfolding passwordRegex_def test_anchored run_lookahead run_tail
      lookahead_no_terminator [OF True] bracket_lower bracket_upper bracket_special
      specPasswordRule_def
    using True by blast
next
  case False
  then show ?thesis
    unfolding passwordRegex_def test_anchored run_lookahead run_tail
    by blast
qed

lemma specPasswordRule_append: "specPasswordRule p \<Longrightarrow> specPasswordRule (p @ q)"
  by (auto simp: specPasswordRule_def list_ex_iff)

lemma specPasswordRule_sample: "specPasswordRule (js ''Abcdefg!'')"
  by (simp add: specPasswordRule_def js_def isLowercaseLetter_def isUppercaseLetter_def
      isLetter_def isDigit_def)

text \<open>
  C3, as amended. The password validator accepts \<open>p\<close> if and only if \<open>p\<close> has at
  least 8 code units, contains a lowercase letter \<open>a\<close> to \<open>z\<close>, an uppercase letter
  \<open>A\<close> to \<open>Z\<close> and a character that is neither such a letter nor a digit \<open>0\<close> to
  \<open>9\<close>, and contains no line terminator (LF, CR, U+2028, U+2029). There is no maximum
  length: an accepted password followed by any character that is not a line terminator is
  accepted.
\<close>

theorem isValidPassword_iff:
  "(isValidPassword p \<longleftrightarrow> specPasswordRule p \<and> list_all (\<lambda>c. \<not> isLineTerminator c) p)
   \<and> (isValidPassword p \<and> \<not> isLineTerminator c \<longrightarrow> isValidPassword (p @ [c]))"
proof (intro conjI impI)
  show "isValidPassword p \<longleftrightarrow> specPasswordRule p \<and> list_all (\<lambda>c. \<not> isLineTerminator c) p"
    unfolding isValidPassword_def by (rule passwordRegex_accepts)
next
  assume "isValidPassword p \<and> \<not> isLineTerminator c"
  then have "specPasswordRule p" and "list_all (\<lambda>c. \<not> isLineTerminator c) (p @ [c])"
    by (simp_all add: isValidPassword_def passwordRegex_accepts)
  then show "isValidPassword (p @ [c])"
    unfolding isValidPassword_def passwordRegex_accepts
    by (simp add: specPasswordRule_append)
qed

text \<open>
  The password of the specification's first scenario is accepted, also with one more
  character; a password without a special character is not.
\<close>

theorem isValidPassword_iff_witness:
  "isValidPassword (js ''Abcdefg!'') \<and> \<not> isLineTerminator 0x31 \<and> isValidPassword (js ''Abcdefg!'' @ [0x31])
   \<and> \<not> isValidPassword (js ''NoSpecial123'')"
proof -
  have a: "isValidPassword (js ''Abcdefg!'')"
    using isValidPassword_iff [where p = "js ''Abcdefg!''" and c = "0x31"] specPasswordRule_sample
    by (simp add: js_def isLineTerminator_def)
  have b: "\<not> isLineTerminator 0x31"
    by (simp add: isLineTerminator_def)
  have c: "\<not> isValidPassword (js ''NoSpecial123'')"
    using isValidPassword_iff [where p = "js ''NoSpecial123''" and c = "0x31"]
    by (simp add: specPasswordRule_def js_def isLetter_def isLowercaseLetter_def
        isUppercaseLetter_def isDigit_def)
  from a b isValidPassword_iff [where p = "js ''Abcdefg!''" and c = "0x31"] c show ?thesis
    by blast
qed

text \<open>
  C3 as the specification states it fails: \<open>"Abcdefg!\n"\<close> has length 9, a lowercase
  letter, an uppercase letter and a special character, and the validator rejects it, since
  the dot does not match the line feed and \<open>$\<close> matches only at the end of the input.
\<close>

theorem isValidPassword_line_terminator_counterexample:
  "specPasswordRule (js ''Abcdefg!'' @ [0x0A]) \<and> \<not> isValidPassword (js ''Abcdefg!'' @ [0x0A])"
proof -
  have "specPasswordRule (js ''Abcdefg!'' @ [0x0A])"
    by (rule specPasswordRule_append [OF specPasswordRule_sample])
  moreover have "\<not> isValidPassword (js ''Abcdefg!'' @ [0x0A])"
    by (simp add: isValidPassword_def passwordRegex_accepts isLineTerminator_def)
  ultimately show ?thesis by blast
qed

section \<open>Registration\<close>

lemmas controller_vocabulary =
  field_def allFieldsTruthy_def newUser_def credentialsTruthy_def tokenPayload_def

lemmas sample_defs =
  mkRequest_def registerBody_def registerAlice_def aliceStore_def loginBody_def
  aliceIdentity_def emptyStore_def demoEnv_def demoHash_def demoCompare_def demoSign_def
  storeServices_def storeFindUserByEmail_def storeCreateUser_def storeUpdateUser_def
  storeDeleteUser_def storeGetUsers_def userData_def get_def js_def

text \<open>The four outcomes of \<open>createUser\<close>, one lemma for each, for any implementation of the services.\<close>

lemma createUser_required:
  "\<not> allFieldsTruthy req \<Longrightarrow> createUser svc e st req = (respond 400 (Message msgRequired), st)"
  by (auto simp: createUser_def controller_vocabulary Let_def)

lemma createUser_weak:
  "allFieldsTruthy req \<Longrightarrow> \<not> test passwordRegex (ToString (field req ''password'')) \<Longrightarrow>
   createUser svc e st req = (respond 400 (Message msgWeakPassword), st)"
  by (simp add: createUser_def controller_vocabulary Let_def)

lemma createUser_taken:
  "allFieldsTruthy req \<Longrightarrow> test passwordRegex (ToString (field req ''password'')) \<Longrightarrow>
   findUserByEmailService svc st (field req ''email'') = Inr (Some u) \<Longrightarrow>
   createUser svc e st req = (respond 400 (Message msgEmailTaken), st)"
  by (simp add: createUser_def controller_vocabulary Let_def)

lemma createUser_created:
  "allFieldsTruthy req \<Longrightarrow> test passwordRegex (ToString (field req ''password'')) \<Longrightarrow>
   findUserByEmailService svc st (field req ''email'') = Inr None \<Longrightarrow>
   createUserService svc st (newUser e req) = (Inr newId, st') \<Longrightarrow>
   createUser svc e st req = (respond 201 (Created newId msgCreated), st')"
  by (simp add: createUser_def controller_vocabulary Let_def)

lemma createUser_400_store:
  "status (fst (createUser svc e st req)) = 400 \<Longrightarrow> snd (createUser svc e st req) = st"
  by (auto simp: createUser_def Let_def respond_def split: sum.splits option.splits prod.splits if_splits)

text \<open>
  C5, as amended. For every registration request \<open>createUser\<close> checks in order: if any
  of \<open>firstName\<close>, \<open>lastName\<close>, \<open>age\<close>, \<open>email\<close>, \<open>password\<close> is missing or
  otherwise falsy (\<open>null\<close>, \<open>false\<close>, \<open>0\<close>, the empty string) it answers 400 with the
  message that all fields are required; otherwise, if the password (converted to a
  string) fails the pattern, it answers 400 with the message that enumerates the rule;
  otherwise, if the lookup by email returns a record, it answers 400 with the message
  that the email is registered; otherwise it hands the record to \<open>createUserService\<close>
  and, when that returns an identifier, answers 201 with the identifier. Every answer
  with status 400 leaves the store as it was.
\<close>

theorem createUser_checks_in_order:
  "(\<not> allFieldsTruthy req \<longrightarrow>
      createUser svc e st req = (respond 400 (Message msgRequired), st))
   \<and> (allFieldsTruthy req \<and> \<not> test passwordRegex (ToString (field req ''password'')) \<longrightarrow>
      createUser svc e st req = (respond 400 (Message msgWeakPassword), st))
   \<and> (allFieldsTruthy req \<and> test passwordRegex (ToString (field req ''password''))
       \<and> findUserByEmailService svc st (field req ''email'') = Inr (Some u) \<longrightarrow>
      createUser svc e st req = (respond 400 (Message msgEmailTaken), st))
   \<and> (allFieldsTruthy req \<and> test passwordRegex (ToString (field req ''password''))
       \<and> findUserByEmailService svc st (field req ''email'') = Inr None
       \<and> createUserService svc st (newUser e req) = (Inr newId, st') \<longrightarrow>
      createUser svc e st req = (respond 201 (Created newId msgCreated), st'))
   \<and> (status (fst (createUser svc e st req)) = 400 \<longrightarrow> snd (createUser svc e st req) = st)"
proof (intro conjI impI)
  assume "\<not> allFieldsTruthy req"
  then show "createUser svc e st req = (respond 400 (Message msgRequired), st)"
    by (rule createUser_required)
next
  assume "allFieldsTruthy req \<and> \<not> test passwordRegex (ToString (field req ''password''))"
  then show "createUser svc e st req = (respond 400 (Message msgWeakPassword), st)"
    by (simp add: createUser_weak)
next
  assume "allFieldsTruthy req \<and> test passwordRegex (ToString (field req ''password''))
       \<and> findUserByEmailService svc st (field req ''email'') = Inr (Some u)"
  then show "createUser svc e st req = (respond 400 (Message msgEmailTaken), st)"
    by (simp add: createUser_taken)
next
  assume "allFieldsTruthy req \<and> test passwordRegex (ToString (field req ''password''))
       \<and> findUserByEmailService svc st (field req ''email'') = Inr None
       \<and> createUserService svc st (newUser e req) = (Inr newId, st')"
  then show "createUser svc e st req = (respond 201 (Created newId msgCreated), st')"
    by (simp add: createUser_created)
next
  assume "status (fst (createUser svc e st req)) = 400"
  then show "snd (createUser svc e st req) = st"
    by (rule createUser_400_store)
qed

lemma sample_password_ok: "test passwordRegex (js ''Abcdefg!'')"
  using specPasswordRule_sample by (simp add: passwordRegex_accepts js_def isLineTerminator_def)

lemma sample_truthy: "allFieldsTruthy registerAlice"
  by (simp add: controller_vocabulary sample_defs)

lemma sample_find_empty: "findUserByEmailService storeServices emptyStore v = Inr None"
  by (simp add: sample_defs)

lemma sample_find_alice:
  "findUserByEmailService storeServices aliceStore (JStr (js ''a@b.com''))
     = Inr (Some ((snd (hd (docs aliceStore)))(''id'' \<mapsto> JStr (js ''user0''))))"
  by (simp add: sample_defs)


text \<open>The sample registration: its password passes the pattern, \<open>"password"\<close> does not.\<close>

lemma digits_0: "digits 0 = [0x30]"
  by (simp add: digits.simps [of 0])

lemma sample_weak: "\<not> test passwordRegex (js ''password'')"
  by (simp add: passwordRegex_accepts specPasswordRule_def js_def isUppercaseLetter_def)

text \<open>
  The four outcomes on the store of the model: an empty body, a weak password, an email
  that is registered, and the registration of the first scenario of the specification.
\<close>

theorem createUser_checks_in_order_witness:
  "createUser storeServices (demoEnv None) emptyStore (mkRequest Map.empty None)
     = (respond 400 (Message msgRequired), emptyStore)
   \<and> createUser storeServices (demoEnv None) emptyStore
        (mkRequest (registerBody (JNum 30) (JStr (js ''password''))) None)
     = (respond 400 (Message msgWeakPassword), emptyStore)
   \<and> createUser storeServices (demoEnv None) aliceStore registerAlice
     = (respond 400 (Message msgEmailTaken), aliceStore)
   \<and> createUser storeServices (demoEnv None) emptyStore registerAlice
     = (respond 201 (Created (JStr (js ''user0'')) msgCreated),
        \<lparr>docs = [(JStr (js ''user0''), newUser (demoEnv None) registerAlice)], nextId = 1\<rparr>)
   \<and> snd (createUser storeServices (demoEnv None) aliceStore registerAlice) = aliceStore"
proof -
  let ?e = "demoEnv None"
  let ?weak = "mkRequest (registerBody (JNum 30) (JStr (js ''password''))) None"
  let ?u = "(snd (hd (docs aliceStore)))(''id'' \<mapsto> JStr (js ''user0''))"
  let ?st = "\<lparr>docs = [(JStr (js ''user0''), newUser ?e registerAlice)], nextId = 1\<rparr>"
  have pw: "field registerAlice ''password'' = JStr (js ''Abcdefg!'')"
    and em: "field registerAlice ''email'' = JStr (js ''a@b.com'')"
    by (simp_all add: field_def registerAlice_def mkRequest_def registerBody_def get_def)
  have ok: "test passwordRegex (ToString (field registerAlice ''password''))"
    by (simp add: pw sample_password_ok)
  have 1: "createUser storeServices ?e emptyStore (mkRequest Map.empty None)
      = (respond 400 (Message msgRequired), emptyStore)"
    using createUser_checks_in_order [of "mkRequest Map.empty None" storeServices ?e emptyStore]
    by (simp add: allFieldsTruthy_def field_def mkRequest_def get_def)
  have "allFieldsTruthy ?weak"
    by (simp add: controller_vocabulary sample_defs)
  moreover have "\<not> test passwordRegex (ToString (field ?weak ''password''))"
    using sample_weak by (simp add: field_def mkRequest_def registerBody_def get_def)
  ultimately have 2: "createUser storeServices ?e emptyStore ?weak
      = (respond 400 (Message msgWeakPassword), emptyStore)"
    using createUser_checks_in_order [of ?weak storeServices ?e emptyStore] by blast
  have "findUserByEmailService storeServices aliceStore (field registerAlice ''email'') = Inr (Some ?u)"
    by (simp add: em sample_find_alice)
  with sample_truthy ok
  have 3: "createUser storeServices ?e aliceStore registerAlice
      = (respond 400 (Message msgEmailTaken), aliceStore)"
    using createUser_checks_in_order [of registerAlice storeServices ?e aliceStore ?u] by blast
  have "createUserService storeServices emptyStore (newUser ?e registerAlice)
      = (Inr (JStr (js ''user0'')), ?st)"
    by (simp add: storeServices_def storeCreateUser_def emptyStore_def digits_0 js_def Let_def)
  with sample_truthy ok sample_find_empty [of "field registerAlice ''email''"]
  have 4: "createUser storeServices ?e emptyStore registerAlice
      = (respond 201 (Created (JStr (js ''user0'')) msgCreated), ?st)"
    using createUser_checks_in_order
      [of registerAlice storeServices ?e emptyStore _ "JStr (js ''user0'')" ?st]
    by blast
  from 3 have "status (fst (createUser storeServices ?e aliceStore registerAlice)) = 400"
    by (simp add: respond_def)
  then have 5: "snd (createUser storeServices ?e aliceStore registerAlice) = aliceStore"
    using createUser_checks_in_order [of registerAlice storeServices ?e aliceStore] by blast
  from 1 2 3 4 5 show ?thesis by blast
qed

text \<open>
  C5 as the specification states it fails: with \<open>age\<close> equal to \<open>0\<close> no field is
  missing, the password passes the policy and no record has the email, and the answer
  is the 400 for missing fields, with no record created.
\<close>

theorem createUser_age_zero_counterexample:
  "\<not> specMissing (registerBody (JNum 0) (JStr (js ''Abcdefg!''))) ''firstName''
   \<and> \<not> specMissing (registerBody (JNum 0) (JStr (js ''Abcdefg!''))) ''lastName''
   \<and> \<not> specMissing (registerBody (JNum 0) (JStr (js ''Abcdefg!''))) ''age''
   \<and> \<not> specMissing (registerBody (JNum 0) (JStr (js ''Abcdefg!''))) ''email''
   \<and> \<not> specMissing (registerBody (JNum 0) (JStr (js ''Abcdefg!''))) ''password''
   \<and> isValidPassword (js ''Abcdefg!'')
   \<and> findUserByEmailService storeServices emptyStore (JStr (js ''a@b.com'')) = Inr None
   \<and> createUser storeServices (demoEnv None) emptyStore
        (mkRequest (registerBody (JNum 0) (JStr (js ''Abcdefg!''))) None)
     = (respond 400 (Message msgRequired), emptyStore)"
proof -
  have "\<not> allFieldsTruthy (mkRequest (registerBody (JNum 0) (JStr (js ''Abcdefg!''))) None)"
    by (simp add: controller_vocabulary sample_defs)
  then have "createUser storeServices (demoEnv None) emptyStore
        (mkRequest (registerBody (JNum 0) (JStr (js ''Abcdefg!''))) None)
     = (respond 400 (Message msgRequired), emptyStore)"
    by (rule createUser_required)
  moreover have "isValidPassword (js ''Abcdefg!'')"
    by (simp add: isValidPassword_def sample_password_ok)
  ultimately show ?thesis
    by (simp add: specMissing_def registerBody_def sample_find_empty)
qed

text \<open>
  C10. A registration request whose \<open>age\<close> is \<open>0\<close>, or whose \<open>firstName\<close>,
  \<open>lastName\<close>, \<open>email\<close> or \<open>password\<close> is the empty string, is rejected with the 400
  for missing fields although the field is present in the body: line 38 tests the
  truthiness of the values.
\<close>

theorem createUser_falsy_present_field:
  assumes "body req ''age'' = Some (JNum 0) \<or> body req ''firstName'' = Some (JStr [])
     \<or> body req ''lastName'' = Some (JStr []) \<or> body req ''email'' = Some (JStr [])
     \<or> body req ''password'' = Some (JStr [])"
  shows "createUser svc e st req = (respond 400 (Message msgRequired), st)"
proof -
  from assms have "\<not> allFieldsTruthy req"
    by (auto simp: allFieldsTruthy_def field_def get_def)
  then show ?thesis
    by (rule createUser_required)
qed

text \<open>Two such requests: \<open>age\<close> is \<open>0\<close>, and the password is the empty string.\<close>

theorem createUser_falsy_present_field_witness:
  "body (mkRequest (registerBody (JNum 0) (JStr (js ''Abcdefg!''))) None) ''age'' = Some (JNum 0)
   \<and> createUser storeServices (demoEnv (Some (js ''s3cret''))) aliceStore
        (mkRequest (registerBody (JNum 0) (JStr (js ''Abcdefg!''))) None)
     = (respond 400 (Message msgRequired), aliceStore)
   \<and> body (mkRequest (registerBody (JNum 30) (JStr [])) None) ''password'' = Some (JStr [])
   \<and> createUser storeServices (demoEnv (Some (js ''s3cret''))) aliceStore
        (mkRequest (registerBody (JNum 30) (JStr [])) None)
     = (respond 400 (Message msgRequired), aliceStore)"
proof -
  have a: "body (mkRequest (registerBody (JNum 0) (JStr (js ''Abcdefg!''))) None) ''age'' = Some (JNum 0)"
    by (simp add: mkRequest_def registerBody_def)
  have b: "body (mkRequest (registerBody (JNum 30) (JStr [])) None) ''password'' = Some (JStr [])"
    by (simp add: mkRequest_def registerBody_def)
  from a b createUser_falsy_present_field
      [of "mkRequest (registerBody (JNum 0) (JStr (js ''Abcdefg!''))) None" storeServices
        "demoEnv (Some (js ''s3cret''))" aliceStore]
    createUser_falsy_present_field
      [of "mkRequest (registerBody (JNum 30) (JStr [])) None" storeServices
        "demoEnv (Some (js ''s3cret''))" aliceStore]
  show ?thesis by blast
qed

section \<open>Login\<close>

text \<open>The outcomes of \<open>loginUser\<close>, one lemma for each, for any implementation of the services.\<close>

lemma loginUser_required:
  "\<not> credentialsTruthy req \<Longrightarrow> loginUser svc e st req = respond 400 (Message msgLoginRequired)"
  by (auto simp: loginUser_def credentialsTruthy_def field_def Let_def)

lemma loginUser_not_found:
  "credentialsTruthy req \<Longrightarrow> findUserByEmailService svc st (field req ''email'') = Inr None \<Longrightarrow>
   loginUser svc e st req = respond 401 (Message msgUserNotFound)"
  by (simp add: loginUser_def credentialsTruthy_def field_def Let_def)

lemma loginUser_wrong_password:
  "credentialsTruthy req \<Longrightarrow> findUserByEmailService svc st (field req ''email'') = Inr (Some u) \<Longrightarrow>
   bcrypt_compare e (field req ''password'') (get u ''password'') = Inr False \<Longrightarrow>
   loginUser svc e st req = respond 401 (Message msgWrongPassword)"
  by (simp add: loginUser_def credentialsTruthy_def field_def Let_def)

lemma loginUser_verified:
  "credentialsTruthy req \<Longrightarrow> findUserByEmailService svc st (field req ''email'') = Inr (Some u) \<Longrightarrow>
   bcrypt_compare e (field req ''password'') (get u ''password'') = Inr True \<Longrightarrow>
   loginUser svc e st req = issueToken e u"
  by (simp add: loginUser_def credentialsTruthy_def field_def Let_def)


lemma issueToken_no_secret:
  "JWT_SECRET e = None \<or> JWT_SECRET e = Some [] \<Longrightarrow> issueToken e u = respond 500 (Failure msgNoSecret)"
  by (auto simp: issueToken_def)

lemma messages_differ: "msgUserNotFound \<noteq> msgWrongPassword"
  by (simp add: msgUserNotFound_def msgWrongPassword_def)

text \<open>The sample logins against the store that holds one record.\<close>

lemma login_sample_truthy: "credentialsTruthy (mkRequest (loginBody (js ''a@b.com'') (js ''Abcdefg!'')) None)"
  "credentialsTruthy (mkRequest (loginBody (js ''a@b.com'') (js ''Wrong-pw1'')) None)"
  by (simp_all add: controller_vocabulary sample_defs)

lemma login_sample_fields:
  "field (mkRequest (loginBody em pw) None) ''email'' = JStr em"
  "field (mkRequest (loginBody em pw) None) ''password'' = JStr pw"
  by (simp_all add: field_def mkRequest_def loginBody_def get_def)

lemma login_sample_find:
  "findUserByEmailService storeServices aliceStore (JStr (js ''a@b.com'')) = Inr (Some aliceRecord)"
  by (simp add: aliceRecord_def sample_find_alice)

lemma aliceRecord_fields:
  "get aliceRecord ''password'' = JStr (js ''$2b$Abcdefg!'')"
  "get aliceRecord ''id'' = JStr (js ''user0'')"
  "get aliceRecord ''email'' = JStr (js ''a@b.com'')"
  by (simp_all add: aliceRecord_def aliceStore_def userData_def get_def)


lemma login_sample_compare:
  "bcrypt_compare (demoEnv s) (JStr (js ''Abcdefg!'')) (get aliceRecord ''password'') = Inr True"
  "bcrypt_compare (demoEnv s) (JStr (js ''Wrong-pw1'')) (get aliceRecord ''password'') = Inr False"
  by (simp_all add: aliceRecord_fields demoEnv_def demoCompare_def js_def)





text \<open>A login that is answered with 400 or 401 never reads the secret.\<close>

lemma loginUser_secret_irrelevant:
  assumes "status (loginUser svc e st req) = 400 \<or> status (loginUser svc e st req) = 401"
  shows "loginUser svc (e\<lparr>JWT_SECRET := s\<rparr>) st req = loginUser svc e st req"
proof (cases "credentialsTruthy req")
  case False
  then show ?thesis by (simp add: loginUser_required)
next
  case True
  then have t: "truthy (get (body req) ''email'')" "truthy (get (body req) ''password'')"
    by (simp_all add: credentialsTruthy_def field_def)
  have "status (issueToken e u) \<noteq> 400 \<and> status (issueToken e u) \<noteq> 401" for u
    by (simp add: issueToken_def respond_def split: option.splits sum.splits)
  with assms t show ?thesis
    by (auto simp: loginUser_def Let_def respond_def split: sum.splits option.splits if_splits)
qed

text \<open>
  C4, as amended. The absence of the signing secret is found by the login handler, request
  by request: for every login request with valid credentials (the record exists and the
  password verifies), when \<open>JWT_SECRET\<close> is unset or empty the answer is 500 with the
  error \<open>JWT_SECRET no definido\<close>. Logins answered with 400 or 401 are answered the same
  whatever the secret is.
\<close>

theorem loginUser_missing_secret:
  "(credentialsTruthy req \<and> findUserByEmailService svc st (field req ''email'') = Inr (Some u)
     \<and> bcrypt_compare e (field req ''password'') (get u ''password'') = Inr True
     \<and> (JWT_SECRET e = None \<or> JWT_SECRET e = Some []) \<longrightarrow>
      loginUser svc e st req = respond 500 (Failure msgNoSecret))
   \<and> (status (loginUser svc e st req) = 400 \<or> status (loginUser svc e st req) = 401 \<longrightarrow>
      loginUser svc (e\<lparr>JWT_SECRET := s\<rparr>) st req = loginUser svc e st req)"
proof (intro conjI impI)
  assume a: "credentialsTruthy req \<and> findUserByEmailService svc st (field req ''email'') = Inr (Some u)
     \<and> bcrypt_compare e (field req ''password'') (get u ''password'') = Inr True
     \<and> (JWT_SECRET e = None \<or> JWT_SECRET e = Some [])"
  then have "loginUser svc e st req = issueToken e u"
    by (simp add: loginUser_verified)
  with a show "loginUser svc e st req = respond 500 (Failure msgNoSecret)"
    by (simp add: issueToken_no_secret)
next
  assume "status (loginUser svc e st req) = 400 \<or> status (loginUser svc e st req) = 401"
  then show "loginUser svc (e\<lparr>JWT_SECRET := s\<rparr>) st req = loginUser svc e st req"
    by (rule loginUser_secret_irrelevant)
qed


text \<open>With no secret, the valid login gets the 500 and the wrong password gets its 401, as it does with a secret.\<close>

theorem loginUser_missing_secret_witness:
  "loginUser storeServices (demoEnv None) aliceStore
      (mkRequest (loginBody (js ''a@b.com'') (js ''Abcdefg!'')) None)
     = respond 500 (Failure msgNoSecret)
   \<and> loginUser storeServices (demoEnv None) aliceStore
      (mkRequest (loginBody (js ''a@b.com'') (js ''Wrong-pw1'')) None)
     = respond 401 (Message msgWrongPassword)
   \<and> loginUser storeServices ((demoEnv None)\<lparr>JWT_SECRET := Some (js ''s3cret'')\<rparr>) aliceStore
      (mkRequest (loginBody (js ''a@b.com'') (js ''Wrong-pw1'')) None)
     = respond 401 (Message msgWrongPassword)"
proof -
  let ?good = "mkRequest (loginBody (js ''a@b.com'') (js ''Abcdefg!'')) None"
  let ?bad = "mkRequest (loginBody (js ''a@b.com'') (js ''Wrong-pw1'')) None"
  have "JWT_SECRET (demoEnv None) = None"
    by (simp add: demoEnv_def)
  then have 1: "loginUser storeServices (demoEnv None) aliceStore ?good = respond 500 (Failure msgNoSecret)"
    using loginUser_missing_secret [of ?good storeServices aliceStore aliceRecord "demoEnv None"]
      login_sample_truthy(1) login_sample_find login_sample_compare(1) [of None]
    by (simp add: login_sample_fields)
  have 2: "loginUser storeServices (demoEnv None) aliceStore ?bad = respond 401 (Message msgWrongPassword)"
    using login_sample_truthy(2) login_sample_find login_sample_compare(2) [of None]
    by (simp add: loginUser_wrong_password login_sample_fields)
  then have "status (loginUser storeServices (demoEnv None) aliceStore ?bad) = 401"
    by (simp add: respond_def)
  then have "loginUser storeServices ((demoEnv None)\<lparr>JWT_SECRET := Some (js ''s3cret'')\<rparr>) aliceStore ?bad
      = loginUser storeServices (demoEnv None) aliceStore ?bad"
    using loginUser_missing_secret [of ?bad storeServices aliceStore _ "demoEnv None" "Some (js ''s3cret'')"]
    by blast
  with 1 2 show ?thesis by simp
qed

text \<open>
  C4 as the specification states it fails: with \<open>JWT_SECRET\<close> unset the handler serves
  the request, and answers the login with valid credentials with the 500 of the missing
  secret.
\<close>

theorem loginUser_unset_secret_counterexample:
  "credentialsTruthy (mkRequest (loginBody (js ''a@b.com'') (js ''Abcdefg!'')) None)
   \<and> findUserByEmailService storeServices aliceStore (JStr (js ''a@b.com'')) = Inr (Some aliceRecord)
   \<and> bcrypt_compare (demoEnv None) (JStr (js ''Abcdefg!'')) (get aliceRecord ''password'') = Inr True
   \<and> JWT_SECRET (demoEnv None) = None
   \<and> loginUser storeServices (demoEnv None) aliceStore
        (mkRequest (loginBody (js ''a@b.com'') (js ''Abcdefg!'')) None)
     = respond 500 (Failure msgNoSecret)"
proof -
  let ?good = "mkRequest (loginBody (js ''a@b.com'') (js ''Abcdefg!'')) None"
  have s: "JWT_SECRET (demoEnv None) = None"
    by (simp add: demoEnv_def)
  have "loginUser storeServices (demoEnv None) aliceStore ?good = issueToken (demoEnv None) aliceRecord"
    using login_sample_truthy(1) login_sample_find login_sample_compare(1) [of None]
    by (simp add: loginUser_verified login_sample_fields)
  moreover have "issueToken (demoEnv None) aliceRecord = respond 500 (Failure msgNoSecret)"
    using s by (simp add: issueToken_no_secret)
  ultimately show ?thesis
    using s login_sample_truthy(1) login_sample_find login_sample_compare(1) [of None]
    by simp
qed

text \<open>
  C2, as amended. For every login request with both email and password truthy, the answer
  when no record exists for the email and the answer when the record exists and the
  password does not match have the same status 401 and different message bodies,
  \<open>msgUserNotFound\<close> and \<open>msgWrongPassword\<close>.
\<close>

theorem loginUser_401_messages:
  assumes "credentialsTruthy req"
    and "findUserByEmailService svc st1 (field req ''email'') = Inr None"
    and "findUserByEmailService svc st2 (field req ''email'') = Inr (Some u)"
    and "bcrypt_compare e (field req ''password'') (get u ''password'') = Inr False"
  shows "status (loginUser svc e st1 req) = 401 \<and> status (loginUser svc e st2 req) = 401
    \<and> json (loginUser svc e st1 req) = Message msgUserNotFound
    \<and> json (loginUser svc e st2 req) = Message msgWrongPassword
    \<and> json (loginUser svc e st1 req) \<noteq> json (loginUser svc e st2 req)"
proof -
  have "loginUser svc e st1 req = respond 401 (Message msgUserNotFound)"
    using assms(1,2) by (rule loginUser_not_found)
  moreover have "loginUser svc e st2 req = respond 401 (Message msgWrongPassword)"
    using assms(1,3,4) by (rule loginUser_wrong_password)
  ultimately show ?thesis
    by (simp add: respond_def messages_differ)
qed

text \<open>The same request against the empty store and against the store that holds the record.\<close>

theorem loginUser_401_messages_witness:
  "status (loginUser storeServices (demoEnv (Some (js ''s3cret''))) emptyStore
      (mkRequest (loginBody (js ''a@b.com'') (js ''Wrong-pw1'')) None)) = 401
   \<and> status (loginUser storeServices (demoEnv (Some (js ''s3cret''))) aliceStore
      (mkRequest (loginBody (js ''a@b.com'') (js ''Wrong-pw1'')) None)) = 401
   \<and> json (loginUser storeServices (demoEnv (Some (js ''s3cret''))) emptyStore
      (mkRequest (loginBody (js ''a@b.com'') (js ''Wrong-pw1'')) None)) = Message msgUserNotFound
   \<and> json (loginUser storeServices (demoEnv (Some (js ''s3cret''))) aliceStore
      (mkRequest (loginBody (js ''a@b.com'') (js ''Wrong-pw1'')) None)) = Message msgWrongPassword"
proof -
  let ?bad = "mkRequest (loginBody (js ''a@b.com'') (js ''Wrong-pw1'')) None"
  have "findUserByEmailService storeServices aliceStore (field ?bad ''email'') = Inr (Some aliceRecord)"
    by (simp add: login_sample_fields login_sample_find)
  moreover have "bcrypt_compare (demoEnv (Some (js ''s3cret''))) (field ?bad ''password'')
      (get aliceRecord ''password'') = Inr False"
    by (simp add: login_sample_fields login_sample_compare)
  ultimately show ?thesis
    using loginUser_401_messages [OF login_sample_truthy(2) sample_find_empty, of aliceStore aliceRecord
        "demoEnv (Some (js ''s3cret''))"]
    by blast
qed

text \<open>
  C2 as the specification states it fails: the two 401 answers to one request differ, so
  the answer tells whether the email is registered.
\<close>

theorem loginUser_401_distinguishable_counterexample:
  "status (loginUser storeServices (demoEnv (Some (js ''s3cret''))) emptyStore
      (mkRequest (loginBody (js ''a@b.com'') (js ''Wrong-pw1'')) None)) = 401
   \<and> status (loginUser storeServices (demoEnv (Some (js ''s3cret''))) aliceStore
      (mkRequest (loginBody (js ''a@b.com'') (js ''Wrong-pw1'')) None)) = 401
   \<and> loginUser storeServices (demoEnv (Some (js ''s3cret''))) emptyStore
      (mkRequest (loginBody (js ''a@b.com'') (js ''Wrong-pw1'')) None)
     \<noteq> loginUser storeServices (demoEnv (Some (js ''s3cret''))) aliceStore
      (mkRequest (loginBody (js ''a@b.com'') (js ''Wrong-pw1'')) None)"
proof -
  let ?e = "demoEnv (Some (js ''s3cret''))"
  let ?bad = "mkRequest (loginBody (js ''a@b.com'') (js ''Wrong-pw1'')) None"
  have "loginUser storeServices ?e emptyStore ?bad = respond 401 (Message msgUserNotFound)"
    using login_sample_truthy(2) sample_find_empty by (rule loginUser_not_found)
  moreover have "loginUser storeServices ?e aliceStore ?bad = respond 401 (Message msgWrongPassword)"
    using login_sample_truthy(2) login_sample_find login_sample_compare(2) [of "Some (js ''s3cret'')"]
    by (simp add: loginUser_wrong_password login_sample_fields)
  ultimately show ?thesis
    by (simp add: respond_def messages_differ)
qed

section \<open>Update and delete\<close>

text \<open>The calls the recording services write down.\<close>

lemma recorder_update: "updateUserService recorder log i d = (Inr (), log @ [UpdateCall i d])"
  by (simp add: recorder_def)

lemma recorder_delete: "deleteUserService recorder log i = (Inr (), log @ [DeleteCall i])"
  by (simp add: recorder_def)

lemma sendUpdate_recorder: "snd (sendUpdate recorder log i d) = log @ [UpdateCall i d]"
  by (simp add: sendUpdate_def recorder_update)

text \<open>What \<open>updateUser\<close> does with an identity attached: at most one call, an update of the record named by \<open>uid\<close>.\<close>

lemma updateUser_recorder:
  assumes "user req = Some u"
  shows "snd (updateUser recorder e [] req) = []
    \<or> (\<exists>d. snd (updateUser recorder e [] req) = [UpdateCall (get u ''uid'') d]
          \<and> d ''email'' = body req ''email'')"
  using assms
  by (auto simp: updateUser_def Let_def sendUpdate_recorder split: sum.splits)

lemma updateUser_targets:
  assumes "user req = Some u"
  shows "list_all (\<lambda>c. target c = Some (get u ''uid'')) (snd (updateUser recorder e [] req))"
  using updateUser_recorder [OF assms, of e] by auto

lemma updateUser_target_list:
  assumes "user req = Some u"
  shows "map target (snd (updateUser recorder e [] req))
    = (if truthy (get (body req) ''password'') \<and> isl (bcrypt_hash e (get (body req) ''password'') 10)
       then [] else [Some (get u ''uid'')])"
  using assms
  by (auto simp: updateUser_def Let_def sendUpdate_recorder split: sum.splits)

text \<open>\<open>deleteUser\<close> makes one call, and reads nothing of the request but \<open>req.user\<close>; \<open>updateUser\<close> reads \<open>req.user\<close> and the body.\<close>

lemma deleteUser_recorder:
  assumes "user req = Some u"
  shows "snd (deleteUser recorder [] req) = [DeleteCall (get u ''uid'')]"
  using assms by (simp add: deleteUser_def recorder_delete)

lemma deleteUser_request:
  assumes "user r1 = user r2"
  shows "deleteUser svc st r1 = deleteUser svc st r2"
  using assms by (simp add: deleteUser_def)

lemma updateUser_request:
  assumes "user r1 = user r2" "body r1 = body r2"
  shows "updateUser svc e st r1 = updateUser svc e st r2"
  using assms by (simp add: updateUser_def split: option.splits)

text \<open>
  C8. For every update or delete request that carries an identity, the record the
  handler acts on is the one named by the \<open>uid\<close> of that identity: the delete handler
  makes exactly one call, on that record, and gives the same result for any two requests
  with the same identity, whatever their bodies and URL parameters; every call the update
  handler makes is on that record, two requests with the same identity and the same
  password field act on the same records whatever else their bodies and URL parameters
  hold, and two requests with the same identity and body give the same result whatever
  their URL parameters.
\<close>

theorem update_delete_target:
  assumes "user r1 = Some u" and "user r2 = Some u"
  shows "deleteUser svc st r1 = deleteUser svc st r2
    \<and> snd (deleteUser recorder [] r1) = [DeleteCall (get u ''uid'')]
    \<and> list_all (\<lambda>c. target c = Some (get u ''uid'')) (snd (updateUser recorder e [] r1))
    \<and> (get (body r1) ''password'' = get (body r2) ''password'' \<longrightarrow>
         map target (snd (updateUser recorder e [] r1)) = map target (snd (updateUser recorder e [] r2)))
    \<and> (body r1 = body r2 \<longrightarrow> updateUser svc e st r1 = updateUser svc e st r2)"
proof (intro conjI impI)
  show "deleteUser svc st r1 = deleteUser svc st r2"
    using assms by (simp add: deleteUser_request)
  show "snd (deleteUser recorder [] r1) = [DeleteCall (get u ''uid'')]"
    using assms(1) by (rule deleteUser_recorder)
  show "list_all (\<lambda>c. target c = Some (get u ''uid'')) (snd (updateUser recorder e [] r1))"
    using assms(1) by (rule updateUser_targets)
next
  assume "get (body r1) ''password'' = get (body r2) ''password''"
  then show "map target (snd (updateUser recorder e [] r1)) = map target (snd (updateUser recorder e [] r2))"
    by (simp add: updateUser_target_list [OF assms(1)] updateUser_target_list [OF assms(2)])
next
  assume "body r1 = body r2"
  then show "updateUser svc e st r1 = updateUser svc e st r2"
    using assms by (simp add: updateUser_request)
qed


text \<open>The sample identity and the update that names another record.\<close>

lemma aliceIdentity_uid: "get aliceIdentity ''uid'' = JStr (js ''user0'')"
  by (simp add: aliceIdentity_def get_def)

lemma rename_fields:
  "user (renameRequest u) = Some u"
  "get (body (renameRequest u)) ''password'' = JUndefined"
  "body (renameRequest u) ''email'' = None"
  by (simp_all add: renameRequest_def get_def)

text \<open>
  A request that names the record \<open>user9\<close> in its body and its URL, sent with the
  identity of \<open>user0\<close>, acts on \<open>user0\<close>, as does a request with an empty body.
\<close>

theorem update_delete_target_witness:
  "deleteUser storeServices aliceStore (renameRequest aliceIdentity)
     = deleteUser storeServices aliceStore (mkRequest Map.empty (Some aliceIdentity))
   \<and> snd (deleteUser recorder [] (renameRequest aliceIdentity)) = [DeleteCall (JStr (js ''user0''))]
   \<and> list_all (\<lambda>c. target c = Some (JStr (js ''user0'')))
        (snd (updateUser recorder (demoEnv None) [] (renameRequest aliceIdentity)))
   \<and> snd (updateUser recorder (demoEnv None) [] (renameRequest aliceIdentity))
     = [UpdateCall (JStr (js ''user0'')) (body (renameRequest aliceIdentity))]
   \<and> map target (snd (updateUser recorder (demoEnv None) [] (renameRequest aliceIdentity)))
     = map target (snd (updateUser recorder (demoEnv None) [] (mkRequest Map.empty (Some aliceIdentity))))
   \<and> updateUser storeServices (demoEnv None) aliceStore (renameRequest aliceIdentity)
     = updateUser storeServices (demoEnv None) aliceStore ((renameRequest aliceIdentity)\<lparr>params := Map.empty\<rparr>)"
proof -
  let ?r1 = "renameRequest aliceIdentity"
  let ?r2 = "mkRequest Map.empty (Some aliceIdentity)"
  let ?r3 = "(renameRequest aliceIdentity)\<lparr>params := Map.empty\<rparr>"
  have u: "user ?r1 = Some aliceIdentity" "user ?r2 = Some aliceIdentity" "user ?r3 = Some aliceIdentity"
    by (simp_all add: renameRequest_def mkRequest_def)
  have pw: "get (body ?r1) ''password'' = get (body ?r2) ''password''"
    by (simp add: renameRequest_def mkRequest_def get_def)
  have b: "body ?r1 = body ?r3"
    by simp
  have log: "snd (updateUser recorder (demoEnv None) [] ?r1)
      = [UpdateCall (JStr (js ''user0'')) (body ?r1)]"
    unfolding updateUser_def u(1) by (simp add: rename_fields(2) sendUpdate_recorder aliceIdentity_uid)
  note t12 = update_delete_target [OF u(1) u(2), of storeServices aliceStore "demoEnv None",
      unfolded aliceIdentity_uid]
  note t13 = update_delete_target [OF u(1) u(3), of storeServices aliceStore "demoEnv None"]
  have 1: "deleteUser storeServices aliceStore ?r1 = deleteUser storeServices aliceStore ?r2"
    using t12 by (rule conjunct1)
  have 2: "snd (deleteUser recorder [] ?r1) = [DeleteCall (JStr (js ''user0''))]"
    using t12 by blast
  have 3: "list_all (\<lambda>c. target c = Some (JStr (js ''user0'')))
        (snd (updateUser recorder (demoEnv None) [] ?r1))"
    using t12 by blast
  have 4: "map target (snd (updateUser recorder (demoEnv None) [] ?r1))
     = map target (snd (updateUser recorder (demoEnv None) [] ?r2))"
    using t12 pw by blast
  have 5: "updateUser storeServices (demoEnv None) aliceStore ?r1
     = updateUser storeServices (demoEnv None) aliceStore ?r3"
    using t13 b by blast
  from 1 2 3 log 4 5 show ?thesis
    by (intro conjI)
qed

subsection \<open>The handlers and the identity of the request\<close>

lemma getUsers_request: "getUsers svc st r1 = getUsers svc st r2"
  by (simp add: getUsers_def)

lemma updateUser_no_identity:
  "user req = None \<Longrightarrow> updateUser svc e st req = (respond 401 (Message msgInvalidToken), st)"
  by (simp add: updateUser_def)

lemma deleteUser_no_identity:
  "user req = None \<Longrightarrow> deleteUser svc st req = (respond 401 (Message msgInvalidToken), st)"
  by (simp add: deleteUser_def)

lemma sendUpdate_status: "status (fst (sendUpdate svc st i d)) = 200 \<or> status (fst (sendUpdate svc st i d)) = 500"
  by (simp add: sendUpdate_def respond_def split: prod.splits sum.splits)

lemma updateUser_identity_status:
  assumes "user req = Some u"
  shows "status (fst (updateUser svc e st req)) = 200 \<or> status (fst (updateUser svc e st req)) = 500"
  using assms sendUpdate_status [of svc st]
  by (auto simp: updateUser_def Let_def respond_def split: sum.splits)

lemma deleteUser_identity_status:
  assumes "user req = Some u"
  shows "status (fst (deleteUser svc st req)) = 200 \<or> status (fst (deleteUser svc st req)) = 500"
  using assms
  by (auto simp: deleteUser_def Let_def respond_def split: sum.splits prod.splits)

lemma protected_routes_guarded:
  "list_all guarded (filter (\<lambda>r. protected (handler r)) (userRoutes @ profileRoutes))"
  by (simp add: userRoutes_def profileRoutes_def protected_def guarded_def)

text \<open>
  C9, as amended. In both routers every route to the list, update and delete handlers
  passes through \<open>verifyToken\<close>. The list handler makes no check of its own and reads
  nothing of the request. The update and the delete handler each check that an identity
  is attached and answer 401 themselves, leaving the store untouched, when none is; when
  one is attached they trust it and answer 200, or 500 if a call fails.
\<close>

theorem handlers_and_identity:
  "getUsers svc st r1 = getUsers svc st r2
   \<and> (user req = None \<longrightarrow>
        updateUser svc e st req = (respond 401 (Message msgInvalidToken), st)
        \<and> deleteUser svc st req = (respond 401 (Message msgInvalidToken), st))
   \<and> (user req = Some u \<longrightarrow>
        (status (fst (updateUser svc e st req)) = 200 \<or> status (fst (updateUser svc e st req)) = 500)
        \<and> (status (fst (deleteUser svc st req)) = 200 \<or> status (fst (deleteUser svc st req)) = 500))
   \<and> list_all guarded (filter (\<lambda>r. protected (handler r)) (userRoutes @ profileRoutes))"
  using getUsers_request [of svc st r1 r2] updateUser_no_identity [of req svc e st]
    deleteUser_no_identity [of req svc st] updateUser_identity_status [of req u svc e st]
    deleteUser_identity_status [of req u svc st] protected_routes_guarded
  by blast

text \<open>The handlers on the store of the model, without and with an identity.\<close>

theorem handlers_and_identity_witness:
  "getUsers storeServices aliceStore (renameRequest aliceIdentity)
     = getUsers storeServices aliceStore (mkRequest Map.empty None)
   \<and> updateUser storeServices (demoEnv None) aliceStore (mkRequest Map.empty None)
     = (respond 401 (Message msgInvalidToken), aliceStore)
   \<and> deleteUser storeServices aliceStore (mkRequest Map.empty None)
     = (respond 401 (Message msgInvalidToken), aliceStore)
   \<and> status (fst (updateUser storeServices (demoEnv None) aliceStore (renameRequest aliceIdentity))) = 200
   \<and> status (fst (deleteUser storeServices aliceStore (renameRequest aliceIdentity))) = 200"
proof -
  have n: "user (mkRequest Map.empty None) = None"
    by (simp add: mkRequest_def)
  have "status (fst (updateUser storeServices (demoEnv None) aliceStore (renameRequest aliceIdentity))) \<noteq> 500"
    by (simp add: updateUser_def rename_fields sendUpdate_def storeServices_def storeUpdateUser_def
        respond_def)
  moreover
  have "status (fst (deleteUser storeServices aliceStore (renameRequest aliceIdentity))) \<noteq> 500"
    by (simp add: deleteUser_def rename_fields storeServices_def storeDeleteUser_def respond_def)
  ultimately show ?thesis
    using n rename_fields(1) [of aliceIdentity]
      handlers_and_identity [of storeServices aliceStore "renameRequest aliceIdentity"
        "mkRequest Map.empty None" "mkRequest Map.empty None" "demoEnv None"]
      handlers_and_identity [of storeServices aliceStore "renameRequest aliceIdentity"
        "mkRequest Map.empty None" "renameRequest aliceIdentity" "demoEnv None" aliceIdentity]
    by blast
qed

text \<open>
  C9 as the specification states it fails: the update and the delete handler, given a
  request with no identity attached, reject it with their own 401.
\<close>

theorem handler_rejects_counterexample:
  "user (mkRequest [''firstName'' \<mapsto> JStr (js ''Z'')] None) = None
   \<and> updateUser storeServices (demoEnv None) aliceStore (mkRequest [''firstName'' \<mapsto> JStr (js ''Z'')] None)
     = (respond 401 (Message msgInvalidToken), aliceStore)
   \<and> deleteUser storeServices aliceStore (mkRequest [''firstName'' \<mapsto> JStr (js ''Z'')] None)
     = (respond 401 (Message msgInvalidToken), aliceStore)"
  by (simp add: mkRequest_def updateUser_no_identity deleteUser_no_identity)

subsection \<open>The email of a record under an update\<close>













subsection \<open>The password of a new record\<close>










end
